theory Spec2Isabelle
  imports Main "HOL-Library.Word" "HOL-Library.AList"
begin

section \<open>JavaScript values\<close>

text \<open>
  The values that travel between the port controller (\<^verbatim>\<open>SerialPort\<close>), the
  mock binding (\<^verbatim>\<open>MockBindings\<close>) and their callers. Error objects keep their
  constructor and their message. Numbers are the integer-valued ones (baud rates, handle
  ids, byte counts); \<^verbatim>\<open>NaN\<close> is a value of its own because it is a falsy number.
  Objects and functions that the modelled code only passes along are opaque references.
\<close>

datatype error = MissingPortError string | Error string | TypeError string

record PortInfo =
  comName :: string
  manufacturer :: "string option"
  serialNumber :: "string option"
  pnpId :: "string option"
  locationId :: "string option"
  vendorId :: "string option"
  productId :: "string option"

datatype jsval =
    JUndefined
  | JNull
  | JBool bool
  | JNum int
  | JNaN
  | JStr string
  | JObject nat
  | JFunction nat
  | JError error
  | JInfos "PortInfo list"

text \<open>What \<^verbatim>\<open>if (v)\<close>, \<^verbatim>\<open>!v\<close> and \<^verbatim>\<open>a && b\<close> test.\<close>

fun truthy :: "jsval \<Rightarrow> bool" where
  "truthy JUndefined = False"
| "truthy JNull = False"
| "truthy (JBool b) = b"
| "truthy (JNum n) = (n \<noteq> 0)"
| "truthy JNaN = False"
| "truthy (JStr s) = (s \<noteq> [])"
| "truthy (JObject _) = True"
| "truthy (JFunction _) = True"
| "truthy (JError _) = True"
| "truthy (JInfos _) = True"

text \<open>\<^verbatim>\<open>typeof v === 'number'\<close>.\<close>

fun is_number :: "jsval \<Rightarrow> bool" where
  "is_number (JNum _) = True"
| "is_number JNaN = True"
| "is_number _ = False"

text \<open>
  A plain object is a finite map from property names to values; reading a property
  that is not there gives \<^verbatim>\<open>undefined\<close>. A property can also be present with
  the value \<^verbatim>\<open>undefined\<close>.
\<close>

type_synonym jsobj = "string \<rightharpoonup> jsval"

definition field :: "jsobj \<Rightarrow> string \<Rightarrow> jsval" where
  "field obj k = (case obj k of None \<Rightarrow> JUndefined | Some v \<Rightarrow> v)"

text \<open>
  \<^verbatim>\<open>assign({}, s1, s2, ...)\<close>: the own properties of each source are copied in
  turn, later sources overwriting earlier ones; a source that is \<^verbatim>\<open>undefined\<close> or
  \<^verbatim>\<open>null\<close> (here \<open>None\<close>) is skipped.
\<close>

definition assign :: "jsobj option list \<Rightarrow> jsobj" where
  "assign sources =
     foldl (\<lambda>target src. case src of None \<Rightarrow> target | Some s \<Rightarrow> target ++ s) Map.empty sources"

text \<open>The \<^verbatim>\<open>n\<close>-th argument a function was called with; a missing one is \<^verbatim>\<open>undefined\<close>.\<close>

definition arg :: "jsval list \<Rightarrow> nat \<Rightarrow> jsval" where
  "arg args n = (if n < length args then args ! n else JUndefined)"

text \<open>Decimal rendering of a handle id, as string concatenation with a number does.\<close>

fun show_nat :: "nat \<Rightarrow> string" where
  "show_nat n =
     (if n < 10 then [''0123456789'' ! n]
      else show_nat (n div 10) @ [''0123456789'' ! (n mod 10)])"

declare show_nat.simps [simp del]

section \<open>The mock binding (\<^verbatim>\<open>MockBindings\<close>)\<close>

text \<open>
  \<^verbatim>\<open>function MissingPortError(message)\<close>: the message defaults when the argument
  is missing or empty.
\<close>

definition newMissingPortError :: "string option \<Rightarrow> error" where
  "newMissingPortError message =
     (case message of
        None \<Rightarrow> MissingPortError ''Port does not exist - please call hardware.createPort(path) first''
      | Some s \<Rightarrow>
          if s \<noteq> [] then MissingPortError s
          else MissingPortError ''Port does not exist - please call hardware.createPort(path) first'')"

text \<open>
  How a binding operation answers its caller. It raises before returning
  (\<open>Throw\<close>); or it calls the callback itself, inside the call (\<open>Sync\<close>, the
  source's \<^verbatim>\<open>cb(...)\<close>); or it hands the callback and its arguments to
  \<^verbatim>\<open>process.nextTick\<close> and returns (\<open>NextTick\<close>, the source's
  \<^verbatim>\<open>callLater(cb, ...)\<close>). The callback may be missing (\<open>None\<close>).
\<close>

datatype 'cb reaction =
    Throw error
  | Sync 'cb "jsval list"
  | NextTick "'cb option" "jsval list"

definition callLater :: "'cb option \<Rightarrow> jsval list \<Rightarrow> 'cb reaction" where
  "callLater callback args = NextTick callback args"

text \<open>
  The task \<^verbatim>\<open>callLater\<close> queued, when its tick comes:
  \<^verbatim>\<open>callback && callback.apply(null, args)\<close>. The result is the call made, if any.
\<close>

definition run_tick :: "'cb option \<Rightarrow> jsval list \<Rightarrow> ('cb \<times> jsval list) option" where
  "run_tick callback args = (case callback of None \<Rightarrow> None | Some f \<Rightarrow> Some (f, args))"

text \<open>A direct call \<^verbatim>\<open>cb(args)\<close>; calling \<^verbatim>\<open>undefined\<close> is a \<^verbatim>\<open>TypeError\<close>.\<close>

definition call_now :: "'cb option \<Rightarrow> jsval list \<Rightarrow> 'cb reaction" where
  "call_now cb args =
     (case cb of None \<Rightarrow> Throw (TypeError ''cb is not a function'') | Some f \<Rightarrow> Sync f args)"

subsection \<open>State\<close>

text \<open>
  A registry entry is a JavaScript object that \<^verbatim>\<open>this.ports[path]\<close> and
  \<^verbatim>\<open>this.fds[fd]\<close> both point to, and a \<^verbatim>\<open>Buffer\<close> is an object its holders
  share. Both live in a store, addressed by a reference, which allocation takes from a
  counter. The entry's handle array is \<open>port_fds\<close> (the source's \<^verbatim>\<open>port.fds\<close>;
  the name \<open>fds\<close> is the binding's handle map). \<open>openOpt\<close> is \<open>None\<close> until the
  first successful open assigns it. The binding keeps the caller's options object itself;
  of that object the code here reads \<^verbatim>\<open>lock\<close> and writes only \<^verbatim>\<open>baudRate\<close>,
  so the entry holds the object's properties as they were when it was recorded.
\<close>

type_synonym byte = "8 word"
type_synonym ref = nat

record PortEntry =
  data :: ref
  lastWrite :: "ref option"
  poller :: "nat option"
  info :: PortInfo
  port_fds :: "nat list"
  openOpt :: "jsobj option"

record heap =
  entries :: "ref \<Rightarrow> PortEntry"
  nextEntry :: ref
  bufs :: "ref \<Rightarrow> byte list"
  nextBuf :: ref

record MockBindings =
  nextFd :: nat
  fds :: "nat \<rightharpoonup> ref"
  ports :: "(string \<times> ref) list"

type_synonym mock = "MockBindings \<times> heap"

text \<open>\<^verbatim>\<open>new Buffer(...)\<close> with the given contents: a fresh buffer.\<close>

definition newBuffer :: "byte list \<Rightarrow> heap \<Rightarrow> ref \<times> heap" where
  "newBuffer bytes h =
     (nextBuf h, h\<lparr>bufs := (bufs h)(nextBuf h := bytes), nextBuf := Suc (nextBuf h)\<rparr>)"

definition reset :: "mock \<Rightarrow> mock" where
  "reset s = (case s of (m, h) \<Rightarrow> (m\<lparr>ports := [], fds := Map.empty, nextFd := 0\<rparr>, h))"

text \<open>
  \<^verbatim>\<open>this.ports\<close> is a plain object, so \<^verbatim>\<open>this.ports[path]\<close> finds the
  entry registered under the path, or else, for the name of a property that every
  object inherits from \<^verbatim>\<open>Object.prototype\<close>, that inherited value: a function, or
  for \<^verbatim>\<open>__proto__\<close> the prototype itself. Such a value is truthy and has none of
  the properties of an entry. For any other name the result is \<^verbatim>\<open>undefined\<close>
  (\<open>None\<close>). The names are those of the runtime's \<^verbatim>\<open>Object.prototype\<close>.
\<close>

definition Object_prototype :: "string list" where
  "Object_prototype =
     [''constructor'', ''toString'', ''toLocaleString'', ''valueOf'', ''hasOwnProperty'',
      ''isPrototypeOf'', ''propertyIsEnumerable'', ''__proto__'', ''__defineGetter__'',
      ''__defineSetter__'', ''__lookupGetter__'', ''__lookupSetter__'']"

datatype found = Entry ref | Inherited

definition getPortByPath :: "MockBindings \<Rightarrow> string \<Rightarrow> found option" where
  "getPortByPath m path =
     (case map_of (ports m) path of
        Some r \<Rightarrow> Some (Entry r)
      | None \<Rightarrow> if path \<in> set Object_prototype then Some Inherited else None)"

definition getPortByFD :: "MockBindings \<Rightarrow> nat \<Rightarrow> ref option" where
  "getPortByFD m fd = fds m fd"

text \<open>
  \<^verbatim>\<open>createPort\<close>. When \<^verbatim>\<open>this.ports[path]\<close> is truthy the source runs
  \<^verbatim>\<open>delete this.fds[this.ports[path].fd]\<close>; neither an entry nor an inherited
  value has a property \<^verbatim>\<open>fd\<close>, so the key deleted is \<^verbatim>\<open>undefined\<close>, which
  no handle is: the handle map stays as it was. The path then becomes a property of the
  registry that points to a new entry, at its old place in the order of creation if it
  was registered before. The one path left out is \<^verbatim>\<open>__proto__\<close> (\<open>None\<close>):
  assigning to it registers nothing and replaces the prototype of the registry.
\<close>

definition createPort :: "string \<Rightarrow> mock \<Rightarrow> mock option" where
  "createPort path s =
     (if path = ''__proto__'' then None
      else
        (case s of (m, h) \<Rightarrow>
           (case newBuffer [] h of (b, h1) \<Rightarrow>
              let r = nextEntry h1;
                  port = \<lparr>data = b, lastWrite = None, poller = None,
                          info = \<lparr>comName = path,
                                  manufacturer = Some ''The J5 Robotics Company'',
                                  serialNumber = None, pnpId = None, locationId = None,
                                  vendorId = None, productId = None\<rparr>,
                          port_fds = [], openOpt = None\<rparr>
              in Some (m\<lparr>ports := AList.update path r (ports m)\<rparr>,
                       h1\<lparr>entries := (entries h1)(r := port), nextEntry := Suc r\<rparr>))))"

subsection \<open>The operations of the binding contract\<close>

text \<open>
  \<^verbatim>\<open>list\<close>. \<^verbatim>\<open>Object.keys(ports)\<close> enumerates the registered paths in the
  runtime's order, which puts integer-like names first, in ascending order, and is a
  function of the order of creation: the parameter \<open>keys\<close>, applied to the paths in
  the order they were created. Each path gives the \<^verbatim>\<open>info\<close> of its entry.
\<close>

definition mock_list ::
  "(string list \<Rightarrow> string list) \<Rightarrow> 'cb option \<Rightarrow> mock \<Rightarrow> 'cb reaction \<times> mock" where
  "mock_list keys cb s =
     (case s of (m, h) \<Rightarrow>
        (callLater cb
           [JNull,
            JInfos (concat (map (\<lambda>path. case map_of (ports m) path of
                                            None \<Rightarrow> []
                                          | Some r \<Rightarrow> [info (entries h r)])
                                (keys (map fst (ports m)))))],
         s))"

definition mock_open :: "string \<Rightarrow> jsobj \<Rightarrow> 'cb option \<Rightarrow> mock \<Rightarrow> 'cb reaction \<times> mock" where
  "mock_open path opt cb s =
     (case s of (m, h) \<Rightarrow>
        (case getPortByPath m path of
           None \<Rightarrow> (call_now cb [JError (newMissingPortError (Some path))], s)
         | Some Inherited \<Rightarrow>
             (Throw (TypeError ''Cannot read property length of undefined''), s)
         | Some (Entry r) \<Rightarrow>
             let port = entries h r;
                 fd = nextFd m;
                 opened =
                   (callLater cb [JNull, JNum (int fd)],
                    (m\<lparr>nextFd := Suc fd, fds := (fds m)(fd \<mapsto> r)\<rparr>,
                     h\<lparr>entries := (entries h)
                          (r := port\<lparr>openOpt := Some opt, port_fds := port_fds port @ [fd]\<rparr>)\<rparr>))
             in if port_fds port \<noteq> [] then
                  (case openOpt port of
                     None \<Rightarrow> (Throw (TypeError ''Cannot read property lock of undefined''), s)
                   | Some recorded \<Rightarrow>
                       if truthy (field recorded ''lock'')
                       then (call_now cb [JError (Error ''port is locked cannot open'')], s)
                       else opened)
                else opened))"

definition mock_close :: "nat \<Rightarrow> 'cb option \<Rightarrow> mock \<Rightarrow> 'cb reaction \<times> mock" where
  "mock_close fd cb s =
     (case s of (m, h) \<Rightarrow>
        (case getPortByFD m fd of
           None \<Rightarrow> (callLater cb [JError (Error (show_nat fd @ '' fd is already closed''))], s)
         | Some r \<Rightarrow>
             (callLater cb [JNull],
              (m\<lparr>fds := (fds m)(fd := None)\<rparr>,
               h\<lparr>entries := (entries h)
                    (r := (entries h r)\<lparr>port_fds :=
                            filter (\<lambda>item. item \<noteq> fd) (port_fds (entries h r))\<rparr>)\<rparr>))))"

definition mock_update :: "nat \<Rightarrow> jsobj \<Rightarrow> 'cb option \<Rightarrow> mock \<Rightarrow> 'cb reaction \<times> mock" where
  "mock_update fd opt cb s =
     (case s of (m, h) \<Rightarrow>
        if \<not> truthy (field opt ''baudRate'') then (Throw (Error ''Missing baudRate''), s)
        else if getPortByFD m fd = None then (callLater cb [JError (newMissingPortError None)], s)
        else (callLater cb [JNull], s))"

definition mock_write :: "nat \<Rightarrow> ref \<Rightarrow> 'cb option \<Rightarrow> mock \<Rightarrow> 'cb reaction \<times> mock" where
  "mock_write fd buffer cb s =
     (case s of (m, h) \<Rightarrow>
        (case getPortByFD m fd of
           None \<Rightarrow> (callLater cb [JError (newMissingPortError None)], s)
         | Some r \<Rightarrow>
             (case newBuffer (bufs h buffer) h of (copy, h1) \<Rightarrow>
                (callLater cb [JNull, JNum (int (length (bufs h buffer)))],
                 (m, h1\<lparr>entries := (entries h1)(r := (entries h1 r)\<lparr>lastWrite := Some copy\<rparr>)\<rparr>)))))"

definition mock_flush :: "nat \<Rightarrow> 'cb option \<Rightarrow> mock \<Rightarrow> 'cb reaction \<times> mock" where
  "mock_flush fd cb s =
     (case s of (m, h) \<Rightarrow>
        if getPortByFD m fd = None then (callLater cb [JError (newMissingPortError None)], s)
        else (callLater cb [JNull, JUndefined], s))"

definition mock_set :: "nat \<Rightarrow> jsobj \<Rightarrow> 'cb option \<Rightarrow> mock \<Rightarrow> 'cb reaction \<times> mock" where
  "mock_set fd opts cb s =
     (case s of (m, h) \<Rightarrow>
        if getPortByFD m fd = None then (callLater cb [JError (newMissingPortError None)], s)
        else (callLater cb [JNull, JUndefined], s))"

definition mock_drain :: "nat \<Rightarrow> 'cb option \<Rightarrow> mock \<Rightarrow> 'cb reaction \<times> mock" where
  "mock_drain fd cb s =
     (case s of (m, h) \<Rightarrow>
        if getPortByFD m fd = None then (callLater cb [JError (newMissingPortError None)], s)
        else (callLater cb [JNull, JUndefined], s))"

text \<open>
  \<^verbatim>\<open>emitData\<close>, the hook that simulates inbound bytes: the entry's data becomes a
  new buffer, the old bytes followed by the chunk's, and the entry's poller, if it has
  one, is told (the result says which). An unregistered path raises, reading
  \<^verbatim>\<open>data\<close> off \<^verbatim>\<open>undefined\<close>, or for an inherited name inside
  \<^verbatim>\<open>Buffer.concat\<close>, before anything is assigned. \<^verbatim>\<open>disconnect\<close> only calls
  a function found in the recorded options and changes nothing in the binding.
\<close>

definition emitData :: "string \<Rightarrow> ref \<Rightarrow> mock \<Rightarrow> (error + nat option) \<times> mock" where
  "emitData path chunk s =
     (case s of (m, h) \<Rightarrow>
        (case getPortByPath m path of
           None \<Rightarrow> (Inl (TypeError ''Cannot read property data of undefined''), s)
         | Some Inherited \<Rightarrow>
             (Inl (TypeError ''Cannot read property length of undefined''), s)
         | Some (Entry r) \<Rightarrow>
             (case newBuffer (bufs h (data (entries h r)) @ bufs h chunk) h of (joined, h1) \<Rightarrow>
                (Inr (poller (entries h r)),
                 (m, h1\<lparr>entries := (entries h1)(r := (entries h1 r)\<lparr>data := joined\<rparr>)\<rparr>)))))"

text \<open>
  The binding as the module exports it: \<^verbatim>\<open>new MockBindings()\<close>, with nothing
  allocated yet.
\<close>

definition blank_entry :: PortEntry where
  "blank_entry =
     \<lparr>data = 0, lastWrite = None, poller = None,
      info = \<lparr>comName = [], manufacturer = None, serialNumber = None, pnpId = None,
              locationId = None, vendorId = None, productId = None\<rparr>,
      port_fds = [], openOpt = None\<rparr>"

definition mockBindings :: mock where
  "mockBindings =
     (\<lparr>nextFd = 0, fds = Map.empty, ports = []\<rparr>,
      \<lparr>entries = (\<lambda>_. blank_entry), nextEntry = 0, bufs = (\<lambda>_. []), nextBuf = 0\<rparr>)"

text \<open>
  What holds of the binding's state however it was reached: a registered entry has been
  allocated; every handle in the handle map is below the counter \<open>nextFd\<close>; an entry
  with open handles has recorded options; and the handle map sends every handle of a
  registered entry to that entry.
\<close>

definition consistent :: "mock \<Rightarrow> bool" where
  "consistent s =
     (case s of (m, h) \<Rightarrow>
        (\<forall>p r. getPortByPath m p = Some (Entry r) \<longrightarrow> r < nextEntry h) \<and>
        (\<forall>n r. getPortByFD m n = Some r \<longrightarrow> n < nextFd m) \<and>
        (\<forall>r. port_fds (entries h r) \<noteq> [] \<longrightarrow> openOpt (entries h r) \<noteq> None) \<and>
        (\<forall>p r n. getPortByPath m p = Some (Entry r) \<longrightarrow>
                   n \<in> set (port_fds (entries h r)) \<longrightarrow> getPortByFD m n = Some r))"

section \<open>The port controller (\<^verbatim>\<open>SerialPort\<close>)\<close>

text \<open>
  The controller calls whatever binding it was given, always as the last statement of a
  method, and passes it a completion function. A method therefore ends in one of three
  ways: it returns, it raises, or it calls the binding (\<open>Calls\<close>) with a completion
  (\<open>cont\<close>) that the binding runs later, or at once, through \<open>resume\<close>. The
  caller's own callbacks are opaque functions, named by a number; calling one, or
  asking the emitter to notify the listeners an outside party attached to an event, is
  recorded in \<open>trace\<close>; what those listeners do is not modelled. \<open>listened\<close>
  names the events that have such a listener, which matters for \<^verbatim>\<open>'error'\<close>: the
  emitter raises an error event nobody listens to. The listeners the controller
  attaches itself (\<^verbatim>\<open>this.once('open', ...)\<close> in \<^verbatim>\<open>_read\<close>) are kept in
  \<open>open_once\<close> and run by \<open>emit\<close>. Methods keep the source's names behind the prefix \<open>port_\<close>
  (\<^verbatim>\<open>_read\<close> is \<open>port_read\<close>), those of the binding behind \<open>mock_\<close>.
  The methods modelled are \<^verbatim>\<open>_error\<close>, \<^verbatim>\<open>open\<close>, \<^verbatim>\<open>update\<close>,
  \<^verbatim>\<open>_read\<close>, \<^verbatim>\<open>_disconnected\<close> and \<^verbatim>\<open>close\<close>, each with the
  completion function it passes to the binding; when the binding raises inside a call,
  the method raises with the state it had reached.
\<close>

datatype cont = OpenDone "nat option" | UpdateDone "nat option" | CloseDone "nat option"

datatype bcall =
    BOpen string jsobj cont
  | BUpdate jsval jsobj cont
  | BClose jsval cont

datatype event = Emitted string "jsval list" | Called nat "jsval list"

datatype listener = ReadAgain jsval

text \<open>\<^verbatim>\<open>function PortReader(options)\<close> of the darwin binding file.\<close>

record PortReader =
  reader_fd :: jsval
  pushData :: jsval
  errorCallback :: jsval
  bytesWanted :: jsval

text \<open>\<^verbatim>\<open>requestBytes\<close> notes the request; \<^verbatim>\<open>startReading\<close> has an empty body.\<close>

definition startReading :: "PortReader \<Rightarrow> PortReader" where
  "startReading r = r"

definition requestBytes :: "jsval \<Rightarrow> PortReader \<Rightarrow> PortReader" where
  "requestBytes bytes r = startReading (r\<lparr>bytesWanted := bytes\<rparr>)"

text \<open>
  \<open>fd\<close> is \<^verbatim>\<open>null\<close> or whatever the binding's open passed as the handle.
  \<open>portReader\<close> is \<open>None\<close> while \<^verbatim>\<open>this.portReader\<close> is undefined: the
  statement of \<^verbatim>\<open>open\<close> that would assign it is commented out.
\<close>

record SerialPort =
  path :: string
  fd :: jsval
  "opening" :: bool
  options :: jsobj
  portReader :: "PortReader option"
  open_once :: "listener list"
  trace :: "event list"
  listened :: "string list"

datatype outcome =
    Returned SerialPort
  | Raised error SerialPort
  | Calls bcall SerialPort

definition and_then :: "outcome \<Rightarrow> (SerialPort \<Rightarrow> outcome) \<Rightarrow> outcome" where
  "and_then r f = (case r of Returned c \<Rightarrow> f c | Raised e c \<Rightarrow> Raised e c | Calls b c \<Rightarrow> Calls b c)"

text \<open>The binding calls a method made, and the state it left.\<close>

fun binding_calls :: "outcome \<Rightarrow> bcall list" where
  "binding_calls (Returned c) = []"
| "binding_calls (Raised e c) = []"
| "binding_calls (Calls b c) = [b]"

fun state_of :: "outcome \<Rightarrow> SerialPort" where
  "state_of (Returned c) = c"
| "state_of (Raised e c) = c"
| "state_of (Calls b c) = c"

text \<open>
  \<^verbatim>\<open>defaultSettings\<close>; its \<^verbatim>\<open>platformOptions\<close> is that of the binding chosen
  for the platform, a parameter here.
\<close>

definition defaultSettings :: "jsval \<Rightarrow> jsobj" where
  "defaultSettings platformOptions =
     map_of [(''baudRate'', JNum 9600), (''autoOpen'', JBool True), (''parity'', JStr ''none''),
             (''xon'', JBool False), (''xoff'', JBool False), (''xany'', JBool False),
             (''rtscts'', JBool False), (''hupcl'', JBool True), (''dataBits'', JNum 8),
             (''stopBits'', JNum 1), (''lock'', JBool True),
             (''platformOptions'', platformOptions)]"

text \<open>The getter \<^verbatim>\<open>isOpen\<close>: \<^verbatim>\<open>this.fd !== null\<close>.\<close>

definition isOpen :: "SerialPort \<Rightarrow> bool" where
  "isOpen c = (fd c \<noteq> JNull)"

definition called :: "nat \<Rightarrow> jsval list \<Rightarrow> SerialPort \<Rightarrow> SerialPort" where
  "called cb args c = c\<lparr>trace := trace c @ [Called cb args]\<rparr>"

text \<open>
  \<^verbatim>\<open>_read\<close>. The branch for a port that is not open registers the retry and does
  not return: the statement after it runs in both cases. Reading
  \<^verbatim>\<open>requestBytes\<close> off an undefined \<^verbatim>\<open>portReader\<close> raises.
\<close>

definition port_read :: "jsval \<Rightarrow> SerialPort \<Rightarrow> outcome" where
  "port_read bytes c =
     (let c1 = (if \<not> isOpen c then c\<lparr>open_once := open_once c @ [ReadAgain bytes]\<rparr> else c)
      in case portReader c1 of
           None \<Rightarrow> Raised (TypeError ''Cannot read property requestBytes of undefined'') c1
         | Some r \<Rightarrow> Returned (c1\<lparr>portReader := Some (requestBytes bytes r)\<rparr>))"

text \<open>
  \<^verbatim>\<open>this.emit(name, ...)\<close>, of the event emitter the controller inherits from.
  An \<^verbatim>\<open>'error'\<close> event that has no listener is raised: the emitter throws its
  argument when that is an error object, and an error of its own otherwise (whose
  wording differs between versions of the runtime). In every other case the outside
  listeners are notified (the trace entry); for \<^verbatim>\<open>'open'\<close> the controller's own
  one-shot listeners then run in the order they were registered, each taken off the
  list before it is called; one that raises ends the emit.
\<close>

fun uncaught :: "jsval \<Rightarrow> error" where
  "uncaught (JError e) = e"
| "uncaught v = Error ''Uncaught, unspecified error event''"

fun run_listeners :: "listener list \<Rightarrow> SerialPort \<Rightarrow> outcome" where
  "run_listeners [] c = Returned c"
| "run_listeners (ReadAgain bytes # ls) c =
     (case port_read bytes (c\<lparr>open_once := remove1 (ReadAgain bytes) (open_once c)\<rparr>) of
        Returned c' \<Rightarrow> run_listeners ls c'
      | Raised e c' \<Rightarrow> Raised e c'
      | Calls b c' \<Rightarrow> Calls b c')"

definition emit :: "string \<Rightarrow> jsval list \<Rightarrow> SerialPort \<Rightarrow> outcome" where
  "emit name args c =
     (if name = ''error'' \<and> ''error'' \<notin> set (listened c) then Raised (uncaught (arg args 0)) c
      else
        let c1 = c\<lparr>trace := trace c @ [Emitted name args]\<rparr>
        in if name = ''open'' then run_listeners (open_once c1) c1 else Returned c1)"

text \<open>
  \<^verbatim>\<open>_error\<close>: to the callback if there is one, else an \<^verbatim>\<open>'error'\<close> event,
  which raises when nobody listens.
\<close>

definition port_error :: "jsval \<Rightarrow> nat option \<Rightarrow> SerialPort \<Rightarrow> outcome" where
  "port_error err callback c =
     (case callback of
        Some cb \<Rightarrow> Returned (called cb [err] c)
      | None \<Rightarrow> emit ''error'' [err] c)"

text \<open>\<^verbatim>\<open>if (callback) { callback.call(this, null) }\<close>.\<close>

definition succeed :: "nat option \<Rightarrow> SerialPort \<Rightarrow> outcome" where
  "succeed callback c =
     (case callback of Some cb \<Rightarrow> Returned (called cb [JNull] c) | None \<Rightarrow> Returned c)"

definition port_open :: "nat option \<Rightarrow> SerialPort \<Rightarrow> outcome" where
  "port_open callback c =
     (if isOpen c then port_error (JError (Error ''Port is already open'')) callback c
      else if opening c then port_error (JError (Error ''Port is opening'')) callback c
      else Calls (BOpen (path c) (options c) (OpenDone callback)) (c\<lparr>opening := True\<rparr>))"

text \<open>The function \<^verbatim>\<open>open\<close> passes to the binding, called with \<open>args\<close>.\<close>

definition open_done :: "nat option \<Rightarrow> jsval list \<Rightarrow> SerialPort \<Rightarrow> outcome" where
  "open_done callback args c =
     (let err = arg args 0; handle = arg args 1
      in if truthy err then port_error err callback c
         else and_then (emit ''open'' [] (c\<lparr>fd := handle, opening := False\<rparr>)) (succeed callback))"

definition port_update :: "jsval \<Rightarrow> jsobj option \<Rightarrow> nat option \<Rightarrow> SerialPort \<Rightarrow> outcome" where
  "port_update platformOptions opts callback c =
     (if \<not> isOpen c then port_error (JError (Error ''Port is not open'')) callback c
      else
        let settings = assign [Some (defaultSettings platformOptions), opts];
            c1 = c\<lparr>options := (options c)(''baudRate'' \<mapsto> field settings ''baudRate'')\<rparr>
        in Calls (BUpdate (fd c1) (options c1) (UpdateDone callback)) c1)"

definition update_done :: "nat option \<Rightarrow> jsval list \<Rightarrow> SerialPort \<Rightarrow> outcome" where
  "update_done callback args c =
     (let err = arg args 0
      in if truthy err then port_error err callback c else succeed callback c)"

definition port_close :: "nat option \<Rightarrow> SerialPort \<Rightarrow> outcome" where
  "port_close callback c =
     (if \<not> isOpen c then port_error (JError (Error ''Port is not open'')) callback c
      else Calls (BClose (fd c) (CloseDone callback)) (c\<lparr>fd := JNull\<rparr>))"

definition close_done :: "nat option \<Rightarrow> jsval list \<Rightarrow> SerialPort \<Rightarrow> outcome" where
  "close_done callback args c =
     (let err = arg args 0
      in if truthy err then port_error err callback c
         else and_then (emit ''close'' [] c) (succeed callback))"

text \<open>\<^verbatim>\<open>_disconnected\<close>; its \<^verbatim>\<open>this.close()\<close> passes no callback.\<close>

definition port_disconnected :: "jsval \<Rightarrow> SerialPort \<Rightarrow> outcome" where
  "port_disconnected err c =
     (if fd c = JNull then Returned c
      else and_then (emit ''disconnect'' [err] c) (port_close None))"

text \<open>The binding runs a completion with the arguments it reports.\<close>

fun resume :: "cont \<Rightarrow> jsval list \<Rightarrow> SerialPort \<Rightarrow> outcome" where
  "resume (OpenDone callback) args c = open_done callback args c"
| "resume (UpdateDone callback) args c = update_done callback args c"
| "resume (CloseDone callback) args c = close_done callback args c"

text \<open>
  A call of the controller served by the mock binding. The mock's handles are the
  natural numbers; a controller holding any other value as its handle is outside what
  \<open>serve\<close> covers (\<open>None\<close>).
\<close>

fun handle_of :: "jsval \<Rightarrow> nat option" where
  "handle_of (JNum i) = (if 0 \<le> i then Some (nat i) else None)"
| "handle_of _ = None"

fun serve :: "bcall \<Rightarrow> mock \<Rightarrow> (cont reaction \<times> mock) option" where
  "serve (BOpen p opt k) s = Some (mock_open p opt (Some k) s)"
| "serve (BUpdate h opt k) s = map_option (\<lambda>n. mock_update n opt (Some k) s) (handle_of h)"
| "serve (BClose h k) s = map_option (\<lambda>n. mock_close n (Some k) s) (handle_of h)"

section \<open>Scenarios\<close>

text \<open>
  The test file registers \<^verbatim>\<open>/dev/exists\<close> with the mock and opens it with
  \<^verbatim>\<open>defaultPortOpenOptions\<close>. \<open>closed_port\<close> is a controller as its constructor
  leaves it (\<^verbatim>\<open>this.fd = null; this.opening = false; this.options = settings\<close>, no
  listener attached), and \<open>opened_port\<close> one that holds the handle \<open>0\<close>.
\<close>

definition exists_port :: mock where
  "exists_port =
     (case createPort ''/dev/exists'' mockBindings of Some s \<Rightarrow> s | None \<Rightarrow> mockBindings)"

definition defaultPortOpenOptions :: jsobj where
  "defaultPortOpenOptions =
     map_of [(''baudRate'', JNum 9600), (''parity'', JStr ''none''), (''xon'', JBool False),
             (''xoff'', JBool False), (''xany'', JBool False), (''rtscts'', JBool False),
             (''hupcl'', JBool True), (''dataBits'', JNum 8), (''stopBits'', JNum 1),
             (''bufferSize'', JNum 65536), (''lock'', JBool True),
             (''platformOptions'', JObject 0), (''dataCallback'', JFunction 0),
             (''errorCallback'', JFunction 1), (''disconnectedCallback'', JFunction 2)]"


definition opened_mock :: mock where
  "opened_mock =
     snd (mock_open ''/dev/exists'' defaultPortOpenOptions (Some (0::nat)) exists_port)"


definition closed_port :: "string \<Rightarrow> SerialPort" where
  "closed_port p =
     \<lparr>path = p, fd = JNull, opening = False, options = defaultSettings (JObject 0),
      portReader = None, open_once = [], trace = [], listened = []\<rparr>"

definition opened_port :: "string \<Rightarrow> SerialPort" where
  "opened_port p = (closed_port p)\<lparr>fd := JNum 0\<rparr>"

definition reader0 :: PortReader where
  "reader0 =
     \<lparr>reader_fd = JNum 0, pushData = JFunction 0, errorCallback = JFunction 1,
      bytesWanted = JUndefined\<rparr>"




text \<open>
  The baud rate a caller of \<^verbatim>\<open>update\<close> ends up asking for: the value of the
  \<^verbatim>\<open>baudRate\<close> property of its options when they have one, whatever that value
  is, and 9600 when they have none or when no options are passed.
\<close>

definition merged_baudRate :: "jsobj option \<Rightarrow> jsval" where
  "merged_baudRate opts =
     (case opts of
        None \<Rightarrow> JNum 9600
      | Some given \<Rightarrow> (case given ''baudRate'' of None \<Rightarrow> JNum 9600 | Some v \<Rightarrow> v))"

lemmas mock_defs = mock_open_def mock_close_def createPort_def newBuffer_def mockBindings_def
  getPortByPath_def Object_prototype_def getPortByFD_def callLater_def call_now_def
  newMissingPortError_def exists_port_def defaultPortOpenOptions_def field_def Let_def

lemmas port_defs = port_open_def open_done_def port_update_def update_done_def
  port_close_def close_done_def port_disconnected_def port_read_def port_error_def
  emit_def succeed_def called_def and_then_def isOpen_def arg_def requestBytes_def
  startReading_def closed_port_def opened_port_def Let_def

section \<open>Facts about the scenarios\<close>


lemma default_lock: "field defaultPortOpenOptions ''lock'' = JBool True"
  by (simp add: defaultPortOpenOptions_def field_def)

lemma createPort_exists_port: "createPort ''/dev/exists'' mockBindings = Some exists_port"
  by (simp add: exists_port_def createPort_def newBuffer_def mockBindings_def Let_def)

lemma exists_port_eq:
  "exists_port =
     (\<lparr>nextFd = 0, fds = Map.empty, ports = [(''/dev/exists'', 0)]\<rparr>,
      \<lparr>entries = (\<lambda>_. blank_entry)
         (0 := \<lparr>data = 0, lastWrite = None, poller = None,
                info = \<lparr>comName = ''/dev/exists'',
                        manufacturer = Some ''The J5 Robotics Company'',
                        serialNumber = None, pnpId = None, locationId = None,
                        vendorId = None, productId = None\<rparr>,
                port_fds = [], openOpt = None\<rparr>),
       nextEntry = 1, bufs = (\<lambda>_. [])(0 := []), nextBuf = 1\<rparr>)"
  by (simp add: exists_port_def createPort_def newBuffer_def mockBindings_def Let_def)

lemma getPortByPath_Entry:
  "getPortByPath m p = Some (Entry r) \<longleftrightarrow> map_of (ports m) p = Some r"
  by (simp add: getPortByPath_def split: option.split)

lemma opened_mock_eq:
  "opened_mock =
     (\<lparr>nextFd = 1, fds = [0 \<mapsto> 0], ports = [(''/dev/exists'', 0)]\<rparr>,
      \<lparr>entries = (\<lambda>_. blank_entry)
         (0 := \<lparr>data = 0, lastWrite = None, poller = None,
                info = \<lparr>comName = ''/dev/exists'',
                        manufacturer = Some ''The J5 Robotics Company'',
                        serialNumber = None, pnpId = None, locationId = None,
                        vendorId = None, productId = None\<rparr>,
                port_fds = [0], openOpt = Some defaultPortOpenOptions\<rparr>),
       nextEntry = 1, bufs = (\<lambda>_. [])(0 := []), nextBuf = 1\<rparr>)"
  unfolding opened_mock_def
  by (simp add: mock_open_def exists_port_eq getPortByPath_def callLater_def Let_def)


lemma mock_update_state: "snd (mock_update n opt cb s) = s"
  by (cases s) (simp add: mock_update_def)

lemma baudRate_assign:
  "field (assign [Some (defaultSettings po), opts]) ''baudRate'' = merged_baudRate opts"
  by (simp add: assign_def field_def defaultSettings_def merged_baudRate_def map_add_def
      split: option.split)

section \<open>The registry invariant\<close>

text \<open>
  \<open>consistent\<close> holds of the binding as exported and is kept by every operation that
  changes its state: \<^verbatim>\<open>reset\<close>, \<^verbatim>\<open>createPort\<close>, \<^verbatim>\<open>open\<close>,
  \<^verbatim>\<open>close\<close>, \<^verbatim>\<open>write\<close> and \<^verbatim>\<open>emitData\<close>. The other operations
  leave the state as it is.
\<close>

lemma consistentI:
  assumes "\<And>p r. getPortByPath m p = Some (Entry r) \<Longrightarrow> r < nextEntry h"
    and "\<And>n r. getPortByFD m n = Some r \<Longrightarrow> n < nextFd m"
    and "\<And>r. port_fds (entries h r) \<noteq> [] \<Longrightarrow> openOpt (entries h r) \<noteq> None"
    and "\<And>p r n. getPortByPath m p = Some (Entry r) \<Longrightarrow> n \<in> set (port_fds (entries h r)) \<Longrightarrow>
                   getPortByFD m n = Some r"
  shows "consistent (m, h)"
  using assms unfolding consistent_def by blast

lemma registered_allocated:
  "consistent (m, h) \<Longrightarrow> getPortByPath m p = Some (Entry r) \<Longrightarrow> r < nextEntry h"
  unfolding consistent_def by simp

lemma handle_below_counter:
  "consistent (m, h) \<Longrightarrow> getPortByFD m n = Some r \<Longrightarrow> n < nextFd m"
  unfolding consistent_def by simp

lemma handles_have_options:
  "consistent (m, h) \<Longrightarrow> port_fds (entries h r) \<noteq> [] \<Longrightarrow> openOpt (entries h r) \<noteq> None"
  unfolding consistent_def by simp

lemma entry_handles_mapped:
  "consistent (m, h) \<Longrightarrow> getPortByPath m p = Some (Entry r) \<Longrightarrow> n \<in> set (port_fds (entries h r)) \<Longrightarrow>
     getPortByFD m n = Some r"
  unfolding consistent_def by simp

lemma consistent_mockBindings: "consistent mockBindings"
  by (simp add: consistent_def mockBindings_def getPortByPath_Entry getPortByFD_def
      blank_entry_def)

lemma consistent_reset: "consistent s \<Longrightarrow> consistent (reset s)"
  by (cases s) (simp add: consistent_def reset_def getPortByPath_Entry getPortByFD_def)

lemma consistent_createPort:
  assumes "consistent s" and created: "createPort p s = Some s'"
  shows "consistent s'"
proof (cases s)
  case (Pair m h)
  note c = assms(1) [unfolded Pair]
  let ?r = "nextEntry h"
  obtain m' h' where s': "s' = (m', h')" by (cases s')
  from created have named: "p \<noteq> ''__proto__''"
    by (auto simp: createPort_def split: if_splits)
  from created have new: "createPort p (m, h) = Some (m', h')"
    by (simp add: Pair s')
  have paths: "getPortByPath m' q = (if q = p then Some (Entry ?r) else getPortByPath m q)" for q
    using new named
    by (auto simp: createPort_def newBuffer_def getPortByPath_def Let_def update_conv')
  have handles: "getPortByFD m' = getPortByFD m" "nextFd m' = nextFd m"
    using new named by (auto simp: createPort_def newBuffer_def getPortByFD_def Let_def)
  have counter: "nextEntry h' = Suc ?r"
    using new named by (auto simp: createPort_def newBuffer_def Let_def)
  have fresh: "port_fds (entries h' ?r) = []"
    using new named by (auto simp: createPort_def newBuffer_def Let_def)
  have old: "entries h' r = entries h r" if "r \<noteq> ?r" for r
    using new named that by (auto simp: createPort_def newBuffer_def Let_def)
  have "consistent (m', h')"
  proof (rule consistentI)
    fix q r assume "getPortByPath m' q = Some (Entry r)"
    then show "r < nextEntry h'"
      using registered_allocated [OF c, of q r] by (auto simp: paths counter split: if_splits)
  next
    fix n r assume "getPortByFD m' n = Some r"
    then show "n < nextFd m'"
      using handle_below_counter [OF c, of n r] by (simp add: handles)
  next
    fix r assume "port_fds (entries h' r) \<noteq> []"
    then show "openOpt (entries h' r) \<noteq> None"
      using handles_have_options [OF c, of r] fresh old [of r] by (cases "r = ?r") auto
  next
    fix q r n assume q: "getPortByPath m' q = Some (Entry r)" and n: "n \<in> set (port_fds (entries h' r))"
    show "getPortByFD m' n = Some r"
    proof (cases "q = p")
      case True
      with q n fresh show ?thesis by (simp add: paths)
    next
      case False
      with q have reg: "getPortByPath m q = Some (Entry r)" by (simp add: paths)
      from registered_allocated [OF c reg] have "r \<noteq> ?r" by simp
      with n old have "n \<in> set (port_fds (entries h r))" by simp
      from entry_handles_mapped [OF c reg this] show ?thesis by (simp add: handles)
    qed
  qed
  with s' show ?thesis by simp
qed

lemma mock_open_state:
  "snd (mock_open p opt cb (m, h)) = (m, h) \<or>
   (\<exists>r. getPortByPath m p = Some (Entry r) \<and>
        snd (mock_open p opt cb (m, h))
          = (m\<lparr>nextFd := Suc (nextFd m), fds := (fds m)(nextFd m \<mapsto> r)\<rparr>,
             h\<lparr>entries := (entries h)
                  (r := (entries h r)\<lparr>openOpt := Some opt,
                          port_fds := port_fds (entries h r) @ [nextFd m]\<rparr>)\<rparr>))"
  by (simp add: mock_open_def Let_def split: option.split found.split)

lemma consistent_open:
  assumes "consistent s"
  shows "consistent (snd (mock_open p opt cb s))"
proof (cases s)
  case (Pair m h)
  note c = assms [unfolded Pair]
  from mock_open_state [of p opt cb m h] show ?thesis
  proof
    assume "snd (mock_open p opt cb (m, h)) = (m, h)"
    with c Pair show ?thesis by simp
  next
    assume "\<exists>r. getPortByPath m p = Some (Entry r) \<and>
        snd (mock_open p opt cb (m, h))
          = (m\<lparr>nextFd := Suc (nextFd m), fds := (fds m)(nextFd m \<mapsto> r)\<rparr>,
             h\<lparr>entries := (entries h)
                  (r := (entries h r)\<lparr>openOpt := Some opt,
                          port_fds := port_fds (entries h r) @ [nextFd m]\<rparr>)\<rparr>)"
    then obtain r0 where reg0: "getPortByPath m p = Some (Entry r0)"
      and new: "snd (mock_open p opt cb (m, h))
          = (m\<lparr>nextFd := Suc (nextFd m), fds := (fds m)(nextFd m \<mapsto> r0)\<rparr>,
             h\<lparr>entries := (entries h)
                  (r0 := (entries h r0)\<lparr>openOpt := Some opt,
                          port_fds := port_fds (entries h r0) @ [nextFd m]\<rparr>)\<rparr>)"
        (is "_ = (?m', ?h')")
      by blast
    have "consistent (?m', ?h')"
    proof (rule consistentI)
      fix q r assume "getPortByPath ?m' q = Some (Entry r)"
      then show "r < nextEntry ?h'"
        using registered_allocated [OF c, of q r] by (simp add: getPortByPath_Entry)
    next
      fix n r assume "getPortByFD ?m' n = Some r"
      then show "n < nextFd ?m'"
        using handle_below_counter [OF c, of n r]
        by (auto simp: getPortByFD_def less_Suc_eq split: if_splits)
    next
      fix r assume "port_fds (entries ?h' r) \<noteq> []"
      then show "openOpt (entries ?h' r) \<noteq> None"
        using handles_have_options [OF c, of r] by (cases "r = r0") auto
    next
      fix q r n
      assume q: "getPortByPath ?m' q = Some (Entry r)" and n: "n \<in> set (port_fds (entries ?h' r))"
      from q have reg: "getPortByPath m q = Some (Entry r)" by (simp add: getPortByPath_Entry)
      show "getPortByFD ?m' n = Some r"
      proof (cases "n = nextFd m")
        case True
        have "r = r0"
        proof (rule ccontr)
          assume "r \<noteq> r0"
          with n True have "nextFd m \<in> set (port_fds (entries h r))" by simp
          from handle_below_counter [OF c entry_handles_mapped [OF c reg this]]
          show False by simp
        qed
        with True show ?thesis by (simp add: getPortByFD_def)
      next
        case False
        with n have "n \<in> set (port_fds (entries h r))" by (cases "r = r0") auto
        from entry_handles_mapped [OF c reg this] False
        show ?thesis by (simp add: getPortByFD_def)
      qed
    qed
    with new Pair show ?thesis by simp
  qed
qed

lemma mock_close_state:
  "snd (mock_close n cb (m, h)) = (m, h) \<or>
   (\<exists>r. getPortByFD m n = Some r \<and>
        snd (mock_close n cb (m, h))
          = (m\<lparr>fds := (fds m)(n := None)\<rparr>,
             h\<lparr>entries := (entries h)
                  (r := (entries h r)\<lparr>port_fds :=
                          filter (\<lambda>item. item \<noteq> n) (port_fds (entries h r))\<rparr>)\<rparr>))"
  by (simp add: mock_close_def split: option.split)

lemma consistent_close:
  assumes "consistent s"
  shows "consistent (snd (mock_close n0 cb s))"
proof (cases s)
  case (Pair m h)
  note c = assms [unfolded Pair]
  from mock_close_state [of n0 cb m h] show ?thesis
  proof
    assume "snd (mock_close n0 cb (m, h)) = (m, h)"
    with c Pair show ?thesis by simp
  next
    assume "\<exists>r. getPortByFD m n0 = Some r \<and>
        snd (mock_close n0 cb (m, h))
          = (m\<lparr>fds := (fds m)(n0 := None)\<rparr>,
             h\<lparr>entries := (entries h)
                  (r := (entries h r)\<lparr>port_fds :=
                          filter (\<lambda>item. item \<noteq> n0) (port_fds (entries h r))\<rparr>)\<rparr>)"
    then obtain r0 where map0: "getPortByFD m n0 = Some r0"
      and new: "snd (mock_close n0 cb (m, h))
          = (m\<lparr>fds := (fds m)(n0 := None)\<rparr>,
             h\<lparr>entries := (entries h)
                  (r0 := (entries h r0)\<lparr>port_fds :=
                          filter (\<lambda>item. item \<noteq> n0) (port_fds (entries h r0))\<rparr>)\<rparr>)"
        (is "_ = (?m', ?h')")
      by blast
    have "consistent (?m', ?h')"
    proof (rule consistentI)
      fix q r assume "getPortByPath ?m' q = Some (Entry r)"
      then show "r < nextEntry ?h'"
        using registered_allocated [OF c, of q r] by (simp add: getPortByPath_Entry)
    next
      fix n r assume "getPortByFD ?m' n = Some r"
      then show "n < nextFd ?m'"
        using handle_below_counter [OF c, of n r]
        by (auto simp: getPortByFD_def split: if_splits)
    next
      fix r assume ne: "port_fds (entries ?h' r) \<noteq> []"
      have "port_fds (entries h r) \<noteq> []"
        using ne by (cases "r = r0") auto
      then show "openOpt (entries ?h' r) \<noteq> None"
        using handles_have_options [OF c, of r] by (cases "r = r0") auto
    next
      fix q r n
      assume q: "getPortByPath ?m' q = Some (Entry r)" and n: "n \<in> set (port_fds (entries ?h' r))"
      from q have reg: "getPortByPath m q = Some (Entry r)" by (simp add: getPortByPath_Entry)
      from n have old: "n \<in> set (port_fds (entries h r))" by (cases "r = r0") auto
      have "n \<noteq> n0"
      proof
        assume "n = n0"
        with entry_handles_mapped [OF c reg old] map0 have "r = r0" by simp
        with n \<open>n = n0\<close> show False by simp
      qed
      with entry_handles_mapped [OF c reg old]
      show "getPortByFD ?m' n = Some r" by (simp add: getPortByFD_def)
    qed
    with new Pair show ?thesis by simp
  qed
qed

lemma consistent_write:
  assumes "consistent s"
  shows "consistent (snd (mock_write n b cb s))"
proof (cases s)
  case (Pair m h)
  with assms show ?thesis
    by (auto simp: consistent_def mock_write_def newBuffer_def split: option.split)
qed

lemma unchanged_state:
  "snd (mock_update n opt cb s) = s" "snd (mock_flush n cb s) = s"
  "snd (mock_set n opt cb s) = s" "snd (mock_drain n cb s) = s"
  "snd (mock_list keys cb s) = s"
  by (cases s; simp add: mock_update_def mock_flush_def mock_set_def mock_drain_def
      mock_list_def)+

lemma consistent_emitData:
  assumes "consistent s"
  shows "consistent (snd (emitData p chunk s))"
proof (cases s)
  case (Pair m h)
  with assms show ?thesis
    by (auto simp: consistent_def emitData_def newBuffer_def getPortByPath_Entry
        split: option.split found.split)
qed

lemma consistent_exists_port: "consistent exists_port"
  by (rule consistent_createPort [OF consistent_mockBindings createPort_exists_port])

lemma consistent_opened_mock: "consistent opened_mock"
  unfolding opened_mock_def by (rule consistent_open [OF consistent_exists_port])


section \<open>Facts about the operations\<close>

text \<open>
  The message of \<^verbatim>\<open>close\<close> on an unknown handle; that no operation of the mock
  binding other than \<^verbatim>\<open>open\<close> ever calls its callback inside the call; and what
  the completion of \<^verbatim>\<open>open\<close> does to the guard \<^verbatim>\<open>opening\<close>: an error leaves
  it as it was, a success clears it.
\<close>

lemma show_nat_44: "show_nat 44 = ''44''"
  by (simp add: show_nat.simps)

lemma close_unknown_handle:
  "mock_close 44 (Some f) exists_port
     = (NextTick (Some f) [JError (Error ''44 fd is already closed'')], exists_port)"
  by (simp add: mock_defs show_nat.simps)

lemma only_open_calls_back_synchronously:
  "fst (mock_close n cb s) \<noteq> Sync f a \<and> fst (mock_update n opt cb s) \<noteq> Sync f a \<and>
   fst (mock_write n b cb s) \<noteq> Sync f a \<and> fst (mock_flush n cb s) \<noteq> Sync f a \<and>
   fst (mock_set n opt cb s) \<noteq> Sync f a \<and> fst (mock_drain n cb s) \<noteq> Sync f a \<and>
   fst (mock_list keys cb s) \<noteq> Sync f a"
  by (cases s)
    (simp add: mock_close_def mock_update_def mock_write_def mock_flush_def mock_set_def
      mock_drain_def mock_list_def callLater_def newBuffer_def split: option.split)

lemma failed_open_keeps_guard:
  "truthy err \<Longrightarrow> opening (state_of (resume (OpenDone callback) (err # rest) c)) = opening c"
  by (cases callback) (simp_all add: port_defs)

lemma run_listeners_opening:
  "opening (state_of (run_listeners ls c)) = opening c"
proof (induction ls arbitrary: c)
  case Nil
  then show ?case by simp
next
  case (Cons l ls)
  obtain bytes where l: "l = ReadAgain bytes" by (cases l)
  show ?case
    by (cases "portReader c") (simp_all add: l port_read_def isOpen_def Let_def Cons.IH)
qed

lemma succeed_opening:
  "opening (state_of (and_then r (succeed callback))) = opening (state_of r)"
  by (cases r; cases callback) (simp_all add: and_then_def succeed_def called_def)

lemma successful_open_clears_guard:
  "\<not> truthy err \<Longrightarrow> \<not> opening (state_of (resume (OpenDone callback) (err # rest) c))"
  by (simp add: open_done_def arg_def Let_def emit_def succeed_opening run_listeners_opening)
section \<open>Opening a path on the mock binding\<close>

text \<open>
  What \<^verbatim>\<open>open\<close> does in every consistent state, by what the registry holds under
  the path. Nothing: the callback is called with a \<^verbatim>\<open>MissingPortError\<close>. An
  inherited value: the call raises. An entry with at least one open handle and a truthy
  recorded lock: the callback is called with \<^verbatim>\<open>port is locked cannot open\<close>. In
  these cases the state is unchanged. Otherwise the callback is queued with
  \<^verbatim>\<open>null\<close> and the handle \<open>nextFd\<close>, which is not in the handle map and is
  larger than every handle in it; the counter is one higher afterwards; the handle map
  sends the new handle to the entry and is unchanged elsewhere; the handle is appended
  to the entry's handles; the entry's recorded options are the ones supplied; and the
  registry and the other entries are as before.
\<close>

lemma mock_open_cases:
  assumes inv: "consistent (m, h)"
  shows
    "(case getPortByPath m p of
        None \<Rightarrow>
          mock_open p opt (Some cb) (m, h)
            = (Sync cb [JError (newMissingPortError (Some p))], (m, h))
      | Some Inherited \<Rightarrow>
          mock_open p opt (Some cb) (m, h)
            = (Throw (TypeError ''Cannot read property length of undefined''), (m, h))
      | Some (Entry r) \<Rightarrow>
          if port_fds (entries h r) \<noteq> [] \<and>
             (\<exists>recorded. openOpt (entries h r) = Some recorded \<and> truthy (field recorded ''lock''))
          then mock_open p opt (Some cb) (m, h)
                 = (Sync cb [JError (Error ''port is locked cannot open'')], (m, h))
          else (\<exists>m' h'.
                 mock_open p opt (Some cb) (m, h)
                   = (NextTick (Some cb) [JNull, JNum (int (nextFd m))], (m', h')) \<and>
                 getPortByFD m (nextFd m) = None \<and>
                 (\<forall>n r'. getPortByFD m n = Some r' \<longrightarrow> n < nextFd m) \<and>
                 nextFd m' = Suc (nextFd m) \<and>
                 getPortByFD m' (nextFd m) = Some r \<and>
                 (\<forall>n. n \<noteq> nextFd m \<longrightarrow> getPortByFD m' n = getPortByFD m n) \<and>
                 ports m' = ports m \<and>
                 port_fds (entries h' r) = port_fds (entries h r) @ [nextFd m] \<and>
                 openOpt (entries h' r) = Some opt \<and>
                 (\<forall>r'. r' \<noteq> r \<longrightarrow> entries h' r' = entries h r')))"
proof (cases "getPortByPath m p")
  case None
  then show ?thesis by (simp add: mock_open_def call_now_def)
next
  case (Some v)
  show ?thesis
  proof (cases v)
    case Inherited
    with Some show ?thesis by (simp add: mock_open_def)
  next
    case (Entry r)
    have below: "\<forall>n r'. getPortByFD m n = Some r' \<longrightarrow> n < nextFd m"
      using handle_below_counter [OF inv] by blast
    then have fresh: "getPortByFD m (nextFd m) = None"
      by (cases "getPortByFD m (nextFd m)") auto
    show ?thesis
    proof (cases "port_fds (entries h r) = []")
      case True
      with Some Entry below fresh show ?thesis
        by (simp add: mock_open_def callLater_def getPortByFD_def Let_def)
    next
      case False
      with handles_have_options [OF inv] obtain recorded
        where "openOpt (entries h r) = Some recorded"
        by blast
      with Some Entry False below fresh show ?thesis
        by (simp add: mock_open_def callLater_def call_now_def getPortByFD_def Let_def)
    qed
  qed
qed

text \<open>
  C1. The claim is that \<^verbatim>\<open>open\<close>, for every path that has no registry entry,
  hands a \<^verbatim>\<open>MissingPortError\<close> to the callback. The registry is a plain object and
  the lookup is \<^verbatim>\<open>this.ports[path]\<close>, so for a path that names an inherited
  property the test \<^verbatim>\<open>if (!port)\<close> lets the inherited value through, and reading
  \<^verbatim>\<open>port.fds.length\<close> raises a \<^verbatim>\<open>TypeError\<close> inside the call. Evaluated on the
  registry of the test file, where only \<^verbatim>\<open>/dev/exists\<close> is registered: opening
  \<^verbatim>\<open>constructor\<close>, \<^verbatim>\<open>toString\<close> or \<^verbatim>\<open>__proto__\<close> raises, the callback is
  neither called nor queued, and the state is unchanged.
\<close>

theorem open_inherited_name_raises:
  "map_of (ports (fst exists_port)) ''constructor'' = None \<and>
   getPortByPath (fst exists_port) ''constructor'' = Some Inherited \<and>
   mock_open ''constructor'' defaultPortOpenOptions (Some (0::nat)) exists_port
     = (Throw (TypeError ''Cannot read property length of undefined''), exists_port) \<and>
   mock_open ''toString'' defaultPortOpenOptions (Some (0::nat)) exists_port
     = (Throw (TypeError ''Cannot read property length of undefined''), exists_port) \<and>
   mock_open ''__proto__'' defaultPortOpenOptions (Some (0::nat)) exists_port
     = (Throw (TypeError ''Cannot read property length of undefined''), exists_port)"
  by (simp add: exists_port_eq mock_open_def getPortByPath_def Object_prototype_def)

section \<open>When the callback runs\<close>

text \<open>
  C2. The claim is that no operation of the binding calls its completion callback
  inside the call. \<^verbatim>\<open>open\<close> does: for a path that is not registered, and for a
  path whose entry is locked, it runs \<^verbatim>\<open>return cb(new ...Error(...))\<close>, where every
  other failure path of the binding, and its own success path, goes through
  \<^verbatim>\<open>callLater\<close>. Evaluated on the registry of the test file: opening
  \<^verbatim>\<open>COMBAD\<close>, and opening \<^verbatim>\<open>/dev/exists\<close> a second time with the default
  options, both call the callback synchronously.
\<close>

theorem open_error_callback_is_synchronous:
  "getPortByPath (fst exists_port) ''COMBAD'' = None \<and>
   fst (mock_open ''COMBAD'' defaultPortOpenOptions (Some (0::nat)) exists_port)
     = Sync 0 [JError (MissingPortError ''COMBAD'')] \<and>
   fst (mock_open ''/dev/exists'' defaultPortOpenOptions (Some (1::nat)) opened_mock)
     = Sync 1 [JError (Error ''port is locked cannot open'')]"
  by (simp add: opened_mock_eq exists_port_eq mock_open_def getPortByPath_def
      Object_prototype_def call_now_def default_lock newMissingPortError_def)

section \<open>The opening guard\<close>

text \<open>
  C3. The claim is that the guard \<^verbatim>\<open>opening\<close> is cleared when the open attempt
  completes, with an error as well as with success. The completion function of
  \<^verbatim>\<open>open\<close> returns on an error before it reaches \<^verbatim>\<open>this.opening = false\<close>.
  Evaluated: a closed controller for \<^verbatim>\<open>COMBAD\<close> calls \<^verbatim>\<open>open\<close>; the mock
  binding reports the missing port; the controller hands the error to the callback and
  is left closed with \<^verbatim>\<open>opening\<close> still set; a later \<^verbatim>\<open>open\<close> is answered
  \<^verbatim>\<open>Port is opening\<close> and makes no binding call.
\<close>

theorem opening_guard_survives_failed_open:
  "port_open (Some 1) (closed_port ''COMBAD'')
     = Calls (BOpen ''COMBAD'' (defaultSettings (JObject 0)) (OpenDone (Some 1)))
         ((closed_port ''COMBAD'')\<lparr>opening := True\<rparr>) \<and>
   serve (BOpen ''COMBAD'' (defaultSettings (JObject 0)) (OpenDone (Some 1))) exists_port
     = Some (Sync (OpenDone (Some 1)) [JError (MissingPortError ''COMBAD'')], exists_port) \<and>
   resume (OpenDone (Some 1)) [JError (MissingPortError ''COMBAD'')]
       ((closed_port ''COMBAD'')\<lparr>opening := True\<rparr>)
     = Returned ((closed_port ''COMBAD'')
         \<lparr>opening := True, trace := [Called 1 [JError (MissingPortError ''COMBAD'')]]\<rparr>) \<and>
   \<not> isOpen ((closed_port ''COMBAD'')
         \<lparr>opening := True, trace := [Called 1 [JError (MissingPortError ''COMBAD'')]]\<rparr>) \<and>
   port_open (Some 2) ((closed_port ''COMBAD'')
         \<lparr>opening := True, trace := [Called 1 [JError (MissingPortError ''COMBAD'')]]\<rparr>)
     = Returned ((closed_port ''COMBAD'')
         \<lparr>opening := True,
          trace := [Called 1 [JError (MissingPortError ''COMBAD'')],
                    Called 2 [JError (Error ''Port is opening'')]]\<rparr>)"
  by (simp add: port_defs exists_port_eq mock_open_def getPortByPath_def
      Object_prototype_def call_now_def newMissingPortError_def)

section \<open>Disconnects\<close>

text \<open>
  C4, as claimed: a disconnect on an open controller makes no call of the binding's
  \<^verbatim>\<open>close\<close>. It makes one: \<^verbatim>\<open>_disconnected\<close> ends in \<^verbatim>\<open>this.close()\<close>.
\<close>

theorem disconnect_calls_binding_close_counterexample:
  "fd (opened_port ''/dev/exists'') = JNum 0 \<and>
   binding_calls
       (port_disconnected (JError (Error ''disconnected'')) (opened_port ''/dev/exists''))
     = [BClose (JNum 0) (CloseDone None)]"
  by (simp add: port_defs)

text \<open>
  C4, amended. Notified of a disconnect, a controller that holds no handle does nothing.
  One that holds a handle notifies \<^verbatim>\<open>'disconnect'\<close> with the error and then does
  what \<^verbatim>\<open>close()\<close> without a callback does from there: the handle is cleared at
  once and the binding's \<^verbatim>\<open>close\<close> is called, once, with the handle held before;
  when the binding reports success, \<^verbatim>\<open>'close'\<close> is notified after
  \<^verbatim>\<open>'disconnect'\<close>.
\<close>

theorem disconnected_is_notify_then_close:
  "(fd c = JNull \<longrightarrow> port_disconnected err c = Returned c) \<and>
   (fd c \<noteq> JNull \<longrightarrow>
      port_disconnected err c
        = Calls (BClose (fd c) (CloseDone None))
            (c\<lparr>trace := trace c @ [Emitted ''disconnect'' [err]], fd := JNull\<rparr>) \<and>
      port_disconnected err c
        = port_close None (c\<lparr>trace := trace c @ [Emitted ''disconnect'' [err]]\<rparr>) \<and>
      resume (CloseDone None) [JNull] (state_of (port_disconnected err c))
        = Returned (c\<lparr>trace := trace c @ [Emitted ''disconnect'' [err], Emitted ''close'' []],
                      fd := JNull\<rparr>))"
  by (simp add: port_defs)

theorem disconnected_is_notify_then_close_witness:
  "fd (closed_port ''/dev/exists'') = JNull \<and>
   port_disconnected (JError (Error ''disconnected'')) (closed_port ''/dev/exists'')
     = Returned (closed_port ''/dev/exists'') \<and>
   fd (opened_port ''/dev/exists'') \<noteq> JNull \<and>
   port_disconnected (JError (Error ''disconnected'')) (opened_port ''/dev/exists'')
     = Calls (BClose (JNum 0) (CloseDone None))
         ((closed_port ''/dev/exists'')
            \<lparr>trace := [Emitted ''disconnect'' [JError (Error ''disconnected'')]]\<rparr>)"
proof -
  have a: "fd (closed_port ''/dev/exists'') = JNull"
    and b: "fd (opened_port ''/dev/exists'') \<noteq> JNull"
    by (simp_all add: port_defs)
  show ?thesis
    using a b
      disconnected_is_notify_then_close
        [of "closed_port ''/dev/exists''" "JError (Error ''disconnected'')"]
      disconnected_is_notify_then_close
        [of "opened_port ''/dev/exists''" "JError (Error ''disconnected'')"]
    by (simp add: closed_port_def opened_port_def)
qed

section \<open>Two handles on one path\<close>





section \<open>Update without a baud rate\<close>

text \<open>
  C6. For every handle, open or not, every callback and every state of the binding:
  when the options carry no \<^verbatim>\<open>baudRate\<close> property, \<^verbatim>\<open>update\<close> raises
  \<^verbatim>\<open>Error('Missing baudRate')\<close> inside the call. The callback is neither called nor
  queued, and the binding's state is unchanged.
\<close>

theorem update_without_baudRate_throws:
  "opt ''baudRate'' = None \<Longrightarrow>
     mock_update n opt cb s = (Throw (Error ''Missing baudRate''), s)"
  by (cases s) (simp add: mock_update_def field_def)

theorem update_without_baudRate_throws_witness:
  "(Map.empty :: jsobj) ''baudRate'' = None \<and>
   mock_update 99 Map.empty (Some (0::nat)) mockBindings
     = (Throw (Error ''Missing baudRate''), mockBindings)"
  using update_without_baudRate_throws [of Map.empty 99 "Some (0::nat)" mockBindings]
  by simp

section \<open>Writing\<close>



section \<open>Reading before the port is open\<close>

text \<open>
  C8. The claim is that a read request on a controller that is not open is only
  deferred, and reaches the reader after the port has opened. \<^verbatim>\<open>_read\<close> registers
  the retry and then, with no \<^verbatim>\<open>return\<close>, goes on to
  \<^verbatim>\<open>this.portReader.requestBytes(bytes)\<close>. Evaluated on a closed controller: as the
  constructor leaves it (no reader) the call raises a \<^verbatim>\<open>TypeError\<close>; with a reader
  attached the request reaches the reader while the port is closed; and when the open
  completes, the retry raises out of the \<^verbatim>\<open>'open'\<close> notification, so that the
  callback of \<^verbatim>\<open>open\<close> is never called.
\<close>

theorem read_before_open_is_not_deferred:
  "\<not> isOpen (closed_port ''/dev/exists'') \<and>
   port_read (JNum 16) (closed_port ''/dev/exists'')
     = Raised (TypeError ''Cannot read property requestBytes of undefined'')
         ((closed_port ''/dev/exists'')\<lparr>open_once := [ReadAgain (JNum 16)]\<rparr>) \<and>
   port_read (JNum 16) ((closed_port ''/dev/exists'')\<lparr>portReader := Some reader0\<rparr>)
     = Returned ((closed_port ''/dev/exists'')
         \<lparr>portReader := Some (reader0\<lparr>bytesWanted := JNum 16\<rparr>),
          open_once := [ReadAgain (JNum 16)]\<rparr>) \<and>
   resume (OpenDone (Some 1)) [JNull, JNum 0]
       ((closed_port ''/dev/exists'')\<lparr>opening := True, open_once := [ReadAgain (JNum 16)]\<rparr>)
     = Raised (TypeError ''Cannot read property requestBytes of undefined'')
         ((closed_port ''/dev/exists'')\<lparr>fd := JNum 0, trace := [Emitted ''open'' []]\<rparr>)"
  by (simp add: port_defs reader0_def)

section \<open>Closing\<close>

text \<open>
  C9. \<^verbatim>\<open>close\<close> on an open controller, with or without a callback: the method
  ends by calling the binding's \<^verbatim>\<open>close\<close> with the handle, and the controller is
  already not open at that point. Whatever the binding then reports, the controller is
  not open afterwards. When it reports an error, the error goes to the callback if
  there is one; otherwise it is emitted as an \<^verbatim>\<open>'error'\<close> event, which notifies
  the listeners of that event or, when there is none, is raised by the emitter. In each
  case the handle stays cleared and nothing else is notified.
\<close>

theorem close_clears_handle_eagerly:
  assumes "isOpen c"
  shows
    "\<exists>c1. port_close callback c = Calls (BClose (fd c) (CloseDone callback)) c1 \<and>
          \<not> isOpen c1 \<and>
          (\<forall>args. \<not> isOpen (state_of (resume (CloseDone callback) args c1))) \<and>
          (\<forall>err rest. truthy err \<longrightarrow>
             resume (CloseDone callback) (err # rest) c1
               = (case callback of
                    Some cb \<Rightarrow> Returned (c1\<lparr>trace := trace c @ [Called cb [err]]\<rparr>)
                  | None \<Rightarrow>
                      if ''error'' \<in> set (listened c)
                      then Returned (c1\<lparr>trace := trace c @ [Emitted ''error'' [err]]\<rparr>)
                      else Raised (uncaught err) c1))"
proof -
  let ?c1 = "c\<lparr>fd := JNull\<rparr>"
  have call: "port_close callback c = Calls (BClose (fd c) (CloseDone callback)) ?c1"
    using assms by (simp add: port_close_def)
  have closed: "\<not> isOpen ?c1"
    by (simp add: isOpen_def)
  have stays: "\<not> isOpen (state_of (resume (CloseDone callback) args ?c1))" for args
    by (cases callback)
      (simp_all add: close_done_def port_error_def emit_def succeed_def called_def
        and_then_def isOpen_def Let_def)
  have delivered:
    "resume (CloseDone callback) (err # rest) ?c1
       = (case callback of
            Some cb \<Rightarrow> Returned (?c1\<lparr>trace := trace c @ [Called cb [err]]\<rparr>)
          | None \<Rightarrow>
              if ''error'' \<in> set (listened c)
              then Returned (?c1\<lparr>trace := trace c @ [Emitted ''error'' [err]]\<rparr>)
              else Raised (uncaught err) ?c1)"
    if "truthy err" for err rest
    using that
    by (cases callback)
      (simp_all add: close_done_def port_error_def emit_def called_def arg_def Let_def)
  show ?thesis
    using call closed stays delivered by blast
qed

theorem close_clears_handle_eagerly_witness:
  "isOpen (opened_port ''/dev/exists'') \<and>
   port_close (Some 1) (opened_port ''/dev/exists'')
     = Calls (BClose (JNum 0) (CloseDone (Some 1))) (closed_port ''/dev/exists'') \<and>
   \<not> isOpen (closed_port ''/dev/exists'') \<and>
   resume (CloseDone (Some 1)) [JError (Error ''0 fd is already closed'')]
       (closed_port ''/dev/exists'')
     = Returned ((closed_port ''/dev/exists'')
         \<lparr>trace := [Called 1 [JError (Error ''0 fd is already closed'')]]\<rparr>) \<and>
   port_close None (opened_port ''/dev/exists'')
     = Calls (BClose (JNum 0) (CloseDone None)) (closed_port ''/dev/exists'') \<and>
   resume (CloseDone None) [JError (Error ''0 fd is already closed'')]
       (closed_port ''/dev/exists'')
     = Raised (Error ''0 fd is already closed'') (closed_port ''/dev/exists'') \<and>
   isOpen ((opened_port ''/dev/exists'')\<lparr>listened := [''error'']\<rparr>) \<and>
   port_close None ((opened_port ''/dev/exists'')\<lparr>listened := [''error'']\<rparr>)
     = Calls (BClose (JNum 0) (CloseDone None))
         ((closed_port ''/dev/exists'')\<lparr>listened := [''error'']\<rparr>) \<and>
   resume (CloseDone None) [JError (Error ''0 fd is already closed'')]
       ((closed_port ''/dev/exists'')\<lparr>listened := [''error'']\<rparr>)
     = Returned ((closed_port ''/dev/exists'')
         \<lparr>trace := [Emitted ''error'' [JError (Error ''0 fd is already closed'')]],
          listened := [''error'']\<rparr>)"
proof -
  let ?e = "JError (Error ''0 fd is already closed'')"
  let ?o = "opened_port ''/dev/exists''"
  let ?l = "(opened_port ''/dev/exists'')\<lparr>listened := [''error'']\<rparr>"
  have o: "isOpen ?o" and l: "isOpen ?l" by (simp_all add: port_defs)
  have t: "truthy ?e" by simp
  from close_clears_handle_eagerly [OF o, of "Some 1"] t
  obtain c1 where
    a1: "port_close (Some 1) ?o = Calls (BClose (fd ?o) (CloseDone (Some 1))) c1"
    and a2: "\<not> isOpen c1"
    and a3: "resume (CloseDone (Some 1)) [?e] c1
               = Returned (c1\<lparr>trace := trace ?o @ [Called 1 [?e]]\<rparr>)"
    by fastforce
  from close_clears_handle_eagerly [OF o, of None] t
  obtain c2 where
    b1: "port_close None ?o = Calls (BClose (fd ?o) (CloseDone None)) c2"
    and b3: "resume (CloseDone None) [?e] c2
               = (if ''error'' \<in> set (listened ?o)
                  then Returned (c2\<lparr>trace := trace ?o @ [Emitted ''error'' [?e]]\<rparr>)
                  else Raised (uncaught ?e) c2)"
    by fastforce
  from close_clears_handle_eagerly [OF l, of None] t
  obtain c3 where
    d1: "port_close None ?l = Calls (BClose (fd ?l) (CloseDone None)) c3"
    and d3: "resume (CloseDone None) [?e] c3
               = (if ''error'' \<in> set (listened ?l)
                  then Returned (c3\<lparr>trace := trace ?l @ [Emitted ''error'' [?e]]\<rparr>)
                  else Raised (uncaught ?e) c3)"
    by fastforce
  have c1: "c1 = closed_port ''/dev/exists''"
    using a1 by (simp add: port_defs)
  have c2: "c2 = closed_port ''/dev/exists''"
    using b1 by (simp add: port_defs)
  have c3: "c3 = (closed_port ''/dev/exists'')\<lparr>listened := [''error'']\<rparr>"
    using d1 by (simp add: port_defs)
  show ?thesis
    using o l a1 a2 a3 b1 b3 d1 d3 unfolding c1 c2 c3
    by (simp add: closed_port_def opened_port_def isOpen_def)
qed

section \<open>Updating the baud rate\<close>

text \<open>
  C10, as claimed: through the controller the binding's \<^verbatim>\<open>update\<close> always
  receives a numeric baud rate and never raises \<^verbatim>\<open>Missing baudRate\<close>. The
  controller passes on whatever \<^verbatim>\<open>baudRate\<close> the caller supplies: with
  \<^verbatim>\<open>{baudRate: 0}\<close> the mock binding raises, and with \<^verbatim>\<open>{baudRate: 'fast'}\<close>
  the binding receives a string.
\<close>

theorem update_baudRate_counterexample:
  "isOpen (opened_port ''/dev/exists'') \<and>
   binding_calls (port_update (JObject 0) (Some [''baudRate'' \<mapsto> JNum 0]) (Some 1)
                    (opened_port ''/dev/exists''))
     = [BUpdate (JNum 0) ((defaultSettings (JObject 0))(''baudRate'' \<mapsto> JNum 0))
          (UpdateDone (Some 1))] \<and>
   serve (BUpdate (JNum 0) ((defaultSettings (JObject 0))(''baudRate'' \<mapsto> JNum 0))
            (UpdateDone (Some 1))) opened_mock
     = Some (Throw (Error ''Missing baudRate''), opened_mock) \<and>
   binding_calls (port_update (JObject 0) (Some [''baudRate'' \<mapsto> JStr ''fast'']) (Some 1)
                    (opened_port ''/dev/exists''))
     = [BUpdate (JNum 0) ((defaultSettings (JObject 0))(''baudRate'' \<mapsto> JStr ''fast''))
          (UpdateDone (Some 1))] \<and>
   \<not> is_number
       (field ((defaultSettings (JObject 0))(''baudRate'' \<mapsto> JStr ''fast'')) ''baudRate'')"
  by (simp add: port_defs assign_def mock_update_def field_def)

text \<open>
  C10, amended. \<^verbatim>\<open>update\<close> on an open controller merges the caller's options
  over the default settings and stores the merged \<^verbatim>\<open>baudRate\<close> in the
  controller's options before it calls the binding; no completion of the binding
  changes the options afterwards. The merged value is the caller's \<^verbatim>\<open>baudRate\<close>
  when its options have one, whatever it is, and 9600 otherwise. The mock binding,
  given these options, raises \<^verbatim>\<open>Missing baudRate\<close> exactly when the merged value is
  falsy; so it does not when the caller supplies none.
\<close>

theorem update_passes_merged_baudRate:
  assumes "isOpen c"
  shows
    "\<exists>c1. port_update po opts callback c
             = Calls (BUpdate (fd c) (options c1) (UpdateDone callback)) c1 \<and>
          c1 = c\<lparr>options := (options c)(''baudRate'' \<mapsto> merged_baudRate opts)\<rparr> \<and>
          field (options c1) ''baudRate'' = merged_baudRate opts \<and>
          (\<forall>args. options (state_of (resume (UpdateDone callback) args c1)) = options c1) \<and>
          (\<forall>n cb s. mock_update n (options c1) cb s = (Throw (Error ''Missing baudRate''), s)
                       \<longleftrightarrow> \<not> truthy (merged_baudRate opts))"
proof -
  let ?c1 = "c\<lparr>options := (options c)(''baudRate'' \<mapsto> merged_baudRate opts)\<rparr>"
  have call: "port_update po opts callback c
                = Calls (BUpdate (fd c) (options ?c1) (UpdateDone callback)) ?c1"
    using assms by (simp add: port_update_def Let_def baudRate_assign)
  have rate: "field (options ?c1) ''baudRate'' = merged_baudRate opts"
    by (simp add: field_def)
  have later: "options (state_of (resume (UpdateDone callback) args ?c1)) = options ?c1" for args
    by (cases callback)
      (simp_all add: update_done_def port_error_def succeed_def emit_def called_def Let_def)
  have throws: "mock_update n (options ?c1) cb s = (Throw (Error ''Missing baudRate''), s)
                  \<longleftrightarrow> \<not> truthy (merged_baudRate opts)" for n and cb :: "'a option" and s
    by (cases s) (simp add: mock_update_def field_def callLater_def)
  show ?thesis
    using call rate later throws by blast
qed

theorem update_passes_merged_baudRate_witness:
  "isOpen (opened_port ''/dev/exists'') \<and>
   port_update (JObject 0) (Some Map.empty) (Some 1) (opened_port ''/dev/exists'')
     = Calls (BUpdate (JNum 0) ((defaultSettings (JObject 0))(''baudRate'' \<mapsto> JNum 9600))
               (UpdateDone (Some 1)))
         ((opened_port ''/dev/exists'')
            \<lparr>options := (defaultSettings (JObject 0))(''baudRate'' \<mapsto> JNum 9600)\<rparr>) \<and>
   fst (mock_update 0 ((defaultSettings (JObject 0))(''baudRate'' \<mapsto> JNum 9600))
          (Some (UpdateDone (Some 1))) opened_mock)
     \<noteq> Throw (Error ''Missing baudRate'')"
proof -
  let ?c = "opened_port ''/dev/exists''"
  have o: "isOpen ?c" by (simp add: port_defs)
  have m: "merged_baudRate (Some Map.empty) = JNum 9600" by (simp add: merged_baudRate_def)
  from update_passes_merged_baudRate [OF o, of "JObject 0" "Some Map.empty" "Some 1"]
  obtain c1 where
    a: "port_update (JObject 0) (Some Map.empty) (Some 1) ?c
          = Calls (BUpdate (fd ?c) (options c1) (UpdateDone (Some 1))) c1"
    and b: "c1 = ?c\<lparr>options := (options ?c)(''baudRate'' \<mapsto> merged_baudRate (Some Map.empty))\<rparr>"
    and d: "\<And>n (cb :: cont option) s.
              mock_update n (options c1) cb s = (Throw (Error ''Missing baudRate''), s)
                \<longleftrightarrow> \<not> truthy (merged_baudRate (Some Map.empty))"
    by blast
  have e: "mock_update 0 (options c1) (Some (UpdateDone (Some 1))) opened_mock
             \<noteq> (Throw (Error ''Missing baudRate''), opened_mock)"
    using d [of 0 "Some (UpdateDone (Some 1))" opened_mock] m by simp
  have f: "snd (mock_update 0 (options c1) (Some (UpdateDone (Some 1))) opened_mock)
             = opened_mock"
    by (rule mock_update_state)
  have g: "fst (mock_update 0 (options c1) (Some (UpdateDone (Some 1))) opened_mock)
             \<noteq> Throw (Error ''Missing baudRate'')"
    using e f by (metis prod.collapse)
  show ?thesis using o a b m g by (simp add: closed_port_def opened_port_def)
qed

end
